theory Spec2Isabelle
  imports Main "HOL-Library.Sublist"
begin

section \<open>The session manager of \<open>src/contexts/AuthContext.tsx\<close>\<close>

text \<open>
  The component keeps a bearer token in \<open>localStorage\<close>, mirrors it in the default
  \<open>Authorization\<close> header of the shared axios client, and holds the React state
  \<open>user\<close>, \<open>profile\<close>, \<open>loading\<close>, \<open>isAuthenticated\<close>. Every mutable place the code
  touches is a field of the record \<open>world\<close>; an operation takes the world and returns the
  new one. The answers of the backend are arguments of the operations, so every theorem
  holds for whatever the server replies.

  The fields of a response body have the shapes of the TypeScript annotations at the call
  sites (a \<open>string | undefined\<close> field is a \<open>string option\<close>). The annotations are not
  checked at run time, so the body of a 2xx login answer may also be no object at all
  (\<open>login_body\<close>). The state setters of React are applied in program order; no operation
  reads the React state back.
\<close>

subsection \<open>Data\<close>

text \<open>\<open>interface User\<close> (lines 11 to 18) and \<open>interface Profile\<close> (lines 20 to 26).\<close>

record User =
  u_id :: int
  u_name :: string
  u_email :: string
  u_role :: string
  u_full_name :: "string option"
  u_api_token :: "string option"

record Profile =
  p_id :: int
  p_name :: string
  p_email :: string
  p_role :: string
  p_full_name :: string

text \<open>
  \<open>localStorage\<close> is a map from keys to strings (\<open>getItem\<close> of an absent key is \<open>null\<close>,
  here \<open>None\<close>); \<open>authHeader\<close> is \<open>axios.defaults.headers.common["Authorization"]\<close>, with
  \<open>None\<close> for the deleted or never assigned property.
\<close>

record world =
  localStorage :: "string \<rightharpoonup> string"
  authHeader :: "string option"
  user :: "User option"
  profile :: "Profile option"
  loading :: bool
  isAuthenticated :: bool

text \<open>
  JavaScript truthiness of a \<open>string | null | undefined\<close> value: \<open>null\<close>, \<open>undefined\<close> and
  the empty string are falsy. It is the test behind every \<open>if (token)\<close>, \<open>if (!token)\<close>,
  \<open>a || b\<close> and \<open>if (originalAuthHeader)\<close> of the source.
\<close>

fun truthy :: "string option \<Rightarrow> bool" where
  "truthy None = False"
| "truthy (Some s) = (s \<noteq> [])"

definition js_or :: "string option \<Rightarrow> string option \<Rightarrow> string option" where
  "js_or a b = (if truthy a then a else b)"

text \<open>A template literal prints \<open>null\<close> as the four characters \<open>null\<close>.\<close>

fun interpolate :: "string option \<Rightarrow> string" where
  "interpolate None = ''null''"
| "interpolate (Some s) = s"

definition bearer :: "string option \<Rightarrow> string" where
  "bearer t = ''Bearer '' @ interpolate t"

text \<open>\<open>String.prototype.includes\<close>: the pattern occurs as a contiguous substring.\<close>

fun str_includes :: "string \<Rightarrow> string \<Rightarrow> bool" where
  "str_includes [] p = (p = [])"
| "str_includes (c # cs) p = (prefix p (c # cs) \<or> str_includes cs p)"

subsection \<open>HTTP exchanges\<close>

text \<open>
  What a rejected axios promise carries: \<open>error.message\<close>, and \<open>error.response\<close> when the
  server answered (axios rejects every status outside 200 to 299). The body of an error
  response is untyped in the source; the code reads its \<open>message\<close> field and its
  \<open>JSON.stringify\<close> text, which are the two fields of \<open>err_body\<close>. \<open>None\<close> for
  \<open>err_data\<close> is a falsy body. An \<open>Error\<close> thrown by the code itself has no response.
\<close>

record err_body =
  body_message :: "string option"
  body_json :: string

record err_response =
  err_status :: nat
  err_data :: "err_body option"

record js_error =
  err_message :: string
  err_response :: "err_response option"

datatype 'd outcome = Resolved 'd | Rejected js_error

text \<open>\<open>error.response?.status\<close>\<close>

definition status_of :: "js_error \<Rightarrow> nat option" where
  "status_of e = map_option err_status (err_response e)"

text \<open>The three response bodies the component reads (lines 191 to 195, 136, 146 to 149).\<close>

record login_data =
  l_success :: "bool option"
  l_token :: "string option"
  l_user :: "User option"
  l_message :: "string option"

text \<open>
  The body of a 2xx login answer as \<open>signIn\<close> meets it. \<open>ObjectBody\<close> is a JSON object
  with the fields above (an array behaves as the object without any of them).
  \<open>NonObjectBody\<close> is \<open>null\<close> or a primitive, such as the empty body or an HTML page: on
  it \<open>Object.keys(response.data)\<close> (line 205, for \<open>null\<close>) or \<open>'token' in response.data\<close>
  (line 210, for a primitive) throws a \<open>TypeError\<close> inside the \<open>try\<close>. The text of that
  error is the JavaScript engine's; it is the argument of \<open>NonObjectBody\<close>.

  For the two other bodies nothing is lost by the records: a \<open>null\<close> body throws inside
  the same \<open>try\<close> as the negative answer does, and a primitive has no fields, which is
  \<open>c_authenticated = False\<close> and \<open>pr_success = False\<close>.
\<close>

datatype login_body = ObjectBody login_data | NonObjectBody string

record check_data =
  c_authenticated :: bool
  c_user :: "User option"

record profile_data =
  pr_success :: bool
  pr_data :: "Profile option"

subsection \<open>Token storage (lines 65 to 84)\<close>

definition getToken :: "world \<Rightarrow> string option" where
  "getToken w = js_or (localStorage w ''admin_token'') (localStorage w ''token'')"

definition setToken :: "string \<Rightarrow> world \<Rightarrow> world" where
  "setToken t w =
     w\<lparr>localStorage := (localStorage w)(''admin_token'' \<mapsto> t, ''token'' \<mapsto> t),
       authHeader := Some (bearer (Some t))\<rparr>"

definition removeToken :: "world \<Rightarrow> world" where
  "removeToken w =
     w\<lparr>localStorage := (localStorage w)(''admin_token'' := None, ''token'' := None,
                                         ''user'' := None),
       authHeader := None\<rparr>"

text \<open>
  The four statements \<open>removeToken(); setUser(null); setProfile(null);
  setIsAuthenticated(false)\<close>, which the source repeats at lines 107 to 110, 159 to 162
  and 331 to 334.
\<close>

definition clearSession :: "world \<Rightarrow> world" where
  "clearSession w = (removeToken w)\<lparr>user := None, profile := None, isAuthenticated := False\<rparr>"

subsection \<open>The interceptors (lines 87 to 121)\<close>

text \<open>
  A request configuration: its \<open>headers\<close> object, when it has one, maps header names to
  values. Whatever else the configuration holds is the record's extension.
\<close>

record config =
  headers :: "(string \<rightharpoonup> string) option"

definition requestInterceptor :: "world \<Rightarrow> 'a config_scheme \<Rightarrow> 'a config_scheme" where
  "requestInterceptor w cfg =
     (let token = getToken w in
      case headers cfg of
        None \<Rightarrow> cfg
      | Some h \<Rightarrow>
          if truthy token then cfg\<lparr>headers := Some (h(''Authorization'' \<mapsto> bearer token))\<rparr>
          else cfg)"

text \<open>
  The rejection handler of the response interceptor; the promise stays rejected with the
  same error. The fulfilment handler is the identity.
\<close>

definition responseInterceptor :: "js_error \<Rightarrow> world \<Rightarrow> world" where
  "responseInterceptor e w = (if status_of e = Some 401 then clearSession w else w)"

text \<open>
  One awaited axios call: the outcome comes back through the response interceptor. The
  request interceptor rewrites the outgoing configuration only, and the server's answer is
  an argument, so it leaves no trace here.
\<close>

definition axios_call :: "'d outcome \<Rightarrow> world \<Rightarrow> 'd outcome \<times> world" where
  "axios_call out w =
     (case out of
        Resolved d \<Rightarrow> (Resolved d, w)
      | Rejected e \<Rightarrow> (Rejected e, responseInterceptor e w))"

subsection \<open>Profile fetch, \<open>refreshProfile\<close>, \<open>checkAuth\<close>, \<open>signOut\<close>\<close>

text \<open>
  The guarded profile request, written three times in the source (lines 145 to 153,
  169 to 176, 268 to 282): \<open>GET /api/admin/profile\<close>, \<open>setProfile\<close> when the body has
  \<open>success\<close> and \<open>data\<close>, and an empty \<open>catch\<close>.
\<close>

definition fetchProfile :: "profile_data outcome \<Rightarrow> world \<Rightarrow> world" where
  "fetchProfile profile_out w =
     (case axios_call profile_out w of
        (Resolved d, w') \<Rightarrow>
          if pr_success d \<and> pr_data d \<noteq> None then w'\<lparr>profile := pr_data d\<rparr> else w'
      | (Rejected e, w') \<Rightarrow> w')"

definition refreshProfile :: "profile_data outcome \<Rightarrow> world \<Rightarrow> world" where
  "refreshProfile profile_out w = fetchProfile profile_out w"

text \<open>
  \<open>checkAuth\<close> (lines 123 to 166). An answer that is not affirmative throws inside the
  \<open>try\<close> and lands in the same \<open>catch\<close> as a rejected request; \<open>finally\<close> clears
  \<open>loading\<close>.
\<close>

definition checkAuth :: "check_data outcome \<Rightarrow> profile_data outcome \<Rightarrow> world \<Rightarrow> world" where
  "checkAuth check_out profile_out w =
     (let token = getToken w in
      if \<not> truthy token then w\<lparr>loading := False, isAuthenticated := False\<rparr>
      else
        let w1 = w\<lparr>authHeader := Some (bearer token)\<rparr>;
            w3 = (case axios_call check_out w1 of
                    (Resolved d, w2) \<Rightarrow>
                      if c_authenticated d \<and> c_user d \<noteq> None
                      then fetchProfile profile_out
                             (w2\<lparr>user := c_user d, isAuthenticated := True\<rparr>)
                      else clearSession w2
                  | (Rejected e, w2) \<Rightarrow> clearSession w2)
        in w3\<lparr>loading := False\<rparr>)"

text \<open>\<open>signOut\<close> (lines 326 to 336): the \<open>finally\<close> block runs after either outcome.\<close>

definition signOut :: "'d outcome \<Rightarrow> world \<Rightarrow> world" where
  "signOut logout_out w = (case axios_call logout_out w of (r, w') \<Rightarrow> clearSession w')"

text \<open>
  The effect that runs once on mount (lines 339 to 347): set the default header from a
  stored token, then \<open>checkAuth\<close>. \<open>mounted st\<close> is the state of a new mount (lines 59 to
  62) over the storage \<open>st\<close>.
\<close>

definition initAuth :: "check_data outcome \<Rightarrow> profile_data outcome \<Rightarrow> world \<Rightarrow> world" where
  "initAuth check_out profile_out w =
     (let token = getToken w;
          w1 = (if truthy token then w\<lparr>authHeader := Some (bearer token)\<rparr> else w)
      in checkAuth check_out profile_out w1)"

definition mounted :: "(string \<rightharpoonup> string) \<Rightarrow> world" where
  "mounted st = \<lparr>localStorage = st, authHeader = None, user = None, profile = None,
                 loading = True, isAuthenticated = False\<rparr>"

subsection \<open>\<open>signIn\<close> (lines 179 to 324)\<close>

text \<open>
  Token search, lines 219 to 239; \<open>api_token_of\<close> is \<open>response.data.user?.api_token\<close>.
  The third branch of the source (\<open>success === true\<close>) only writes to the console.
\<close>

definition api_token_of :: "login_data \<Rightarrow> string option" where
  "api_token_of d = (case l_user d of None \<Rightarrow> None | Some u \<Rightarrow> u_api_token u)"

definition extractToken :: "login_data \<Rightarrow> string option" where
  "extractToken d =
     (if truthy (l_token d) then l_token d
      else if truthy (api_token_of d) then api_token_of d
      else None)"

text \<open>The error thrown at line 247: a plain \<open>Error\<close>, which has no \<open>response\<close>.\<close>

definition noTokenError :: js_error where
  "noTokenError = \<lparr>err_message = ''Login failed - no token in response'', err_response = None\<rparr>"

text \<open>
  The \<open>TypeError\<close> of lines 205 and 210 with the engine's text \<open>m\<close>; it has no
  \<open>response\<close> either.
\<close>

definition typeError :: "string \<Rightarrow> js_error" where
  "typeError m = \<lparr>err_message = m, err_response = None\<rparr>"

text \<open>\<open>error.response?.data\<close> and \<open>error.response?.data?.message\<close>\<close>

definition data_of :: "js_error \<Rightarrow> err_body option" where
  "data_of e = (case err_response e of None \<Rightarrow> None | Some r \<Rightarrow> err_data r)"

definition message_of :: "js_error \<Rightarrow> string option" where
  "message_of e = (case data_of e of None \<Rightarrow> None | Some b \<Rightarrow> body_message b)"

text \<open>The message of the error that \<open>signIn\<close> rethrows, lines 305 to 322.\<close>

definition signIn_message :: "js_error \<Rightarrow> string" where
  "signIn_message e =
     (if status_of e = Some 401 then ''Invalid email or password''
      else if status_of e = Some 500 then ''Server error - please try again later''
      else if truthy (message_of e) then interpolate (message_of e)
      else if str_includes (err_message e) ''no token'' then
        (let backendMsg = (case data_of e of
                             Some b \<Rightarrow> '' Backend responded with: '' @ body_json b
                           | None \<Rightarrow> [])
         in ''Login failed - no token in response.'' @ backendMsg)
      else if str_includes (err_message e) ''Network Error'' then
        ''Cannot connect to server. Check your internet connection.''
      else ''Login failed. Please try again.'')"

text \<open>The \<open>catch\<close> block, lines 287 to 323: restore the header, rethrow.\<close>

definition signIn_catch :: "string option \<Rightarrow> js_error \<Rightarrow> world \<Rightarrow> (string + unit) \<times> world" where
  "signIn_catch originalAuthHeader e w =
     (Inl (signIn_message e),
      if truthy originalAuthHeader then w\<lparr>authHeader := originalAuthHeader\<rparr> else w)"

text \<open>
  Lines 250 to 265: persist the token, store and publish the user, raise the flag.
  \<open>stringify\<close> stands for \<open>JSON.stringify\<close> on the user object.
\<close>

definition signIn_persist ::
  "(User \<Rightarrow> string) \<Rightarrow> string \<Rightarrow> login_data \<Rightarrow> string \<Rightarrow> world \<Rightarrow> world" where
  "signIn_persist stringify email d token w =
     (let w1 = setToken token w;
          userData = (case l_user d of
                        Some u \<Rightarrow> u
                      | None \<Rightarrow> \<lparr>u_id = 1, u_name = ''Admin'', u_email = email,
                                 u_role = ''admin'', u_full_name = None, u_api_token = None\<rparr>)
      in w1\<lparr>localStorage := (localStorage w1)(''user'' \<mapsto> stringify userData),
            user := Some userData,
            isAuthenticated := True\<rparr>)"

text \<open>
  The whole operation. \<open>Inl msg\<close> is the rethrown \<open>Error(msg)\<close>, \<open>Inr ()\<close> the normal
  return. The password travels in the request body only. The logging of lines 201 to 216
  comes first after the login answer: on a body that is no object it throws, and the
  \<open>catch\<close> block takes over before the token search.
\<close>

definition signIn ::
  "(User \<Rightarrow> string) \<Rightarrow> string \<Rightarrow> string \<Rightarrow> login_body outcome \<Rightarrow> profile_data outcome
     \<Rightarrow> world \<Rightarrow> (string + unit) \<times> world" where
  "signIn stringify email password login_out profile_out w =
     (let originalAuthHeader = authHeader w;
          w1 = w\<lparr>authHeader := None\<rparr>
      in case axios_call login_out w1 of
           (Rejected e, w2) \<Rightarrow> signIn_catch originalAuthHeader e w2
         | (Resolved (NonObjectBody m), w2) \<Rightarrow>
             signIn_catch originalAuthHeader (typeError m) w2
         | (Resolved (ObjectBody d), w2) \<Rightarrow>
             (case extractToken d of
                None \<Rightarrow> signIn_catch originalAuthHeader noTokenError w2
              | Some token \<Rightarrow>
                  if token = [] then signIn_catch originalAuthHeader noTokenError w2
                  else (Inr (),
                        fetchProfile profile_out (signIn_persist stringify email d token w2))))"

subsection \<open>The helper exports (lines 364 to 399)\<close>

definition getAuthHeaders :: "world \<Rightarrow> (string \<rightharpoonup> string)" where
  "getAuthHeaders w =
     (let token = js_or (localStorage w ''admin_token'') (localStorage w ''token'') in
      [''Content-Type'' \<mapsto> ''application/json'', ''Authorization'' \<mapsto> bearer token])"

definition getAuthAxiosConfig :: "world \<Rightarrow> config" where
  "getAuthAxiosConfig w =
     (let token = js_or (localStorage w ''admin_token'') (localStorage w ''token'') in
      \<lparr>headers = Some [''Authorization'' \<mapsto> bearer token,
                       ''Content-Type'' \<mapsto> ''application/json'']\<rparr>)"

text \<open>
  \<open>RequestInit\<close>: its \<open>headers\<close> as a plain object of strings, if given; the other options
  are the record's extension. Spreading \<open>undefined\<close> adds nothing; in an object literal a
  later entry replaces an earlier one of the same name, which is \<open>++\<close> on maps.
  \<open>authFetch\<close> returns what it passes to \<open>fetch\<close>.
\<close>

record request_init =
  ri_headers :: "(string \<rightharpoonup> string) option"

definition authFetch ::
  "world \<Rightarrow> string \<Rightarrow> 'a request_init_scheme \<Rightarrow> string \<times> 'a request_init_scheme" where
  "authFetch w url options =
     (let token = js_or (localStorage w ''admin_token'') (localStorage w ''token'');
          own = [''Content-Type'' \<mapsto> ''application/json'', ''Authorization'' \<mapsto> bearer token];
          hdrs = own ++ (case ri_headers options of None \<Rightarrow> Map.empty | Some h \<Rightarrow> h)
      in (url, options\<lparr>ri_headers := Some hdrs\<rparr>))"

subsection \<open>Observations and sample values\<close>

text \<open>The \<open>Authorization\<close> entry of a request configuration and of a \<open>fetch\<close> call.\<close>

definition authorization_of :: "'a config_scheme \<Rightarrow> string option" where
  "authorization_of cfg = (case headers cfg of None \<Rightarrow> None | Some h \<Rightarrow> h ''Authorization'')"

definition fetch_authorization :: "string \<times> 'a request_init_scheme \<Rightarrow> string option" where
  "fetch_authorization call =
     (case ri_headers (snd call) of None \<Rightarrow> None | Some h \<Rightarrow> h ''Authorization'')"

text \<open>The \<open>Authorization\<close> entry the caller of \<open>authFetch\<close> put into \<open>options.headers\<close>.\<close>

definition init_authorization :: "'a request_init_scheme \<Rightarrow> string option" where
  "init_authorization options =
     (case ri_headers options of None \<Rightarrow> None | Some h \<Rightarrow> h ''Authorization'')"

text \<open>A request that was answered with status 401.\<close>

definition answered_401 :: "'d outcome \<Rightarrow> bool" where
  "answered_401 out = (case out of Resolved d \<Rightarrow> False | Rejected e \<Rightarrow> status_of e = Some 401)"

text \<open>
  The session holds the token \<open>t\<close>: both storage keys, the default header in bearer form,
  and the flag.
\<close>

definition holds_token :: "string \<Rightarrow> world \<Rightarrow> bool" where
  "holds_token t w \<longleftrightarrow>
     localStorage w ''admin_token'' = Some t \<and> localStorage w ''token'' = Some t \<and>
     authHeader w = Some (''Bearer '' @ t) \<and> isAuthenticated w"

text \<open>
  The cleared session: no user, no profile, not authenticated, and neither token key in
  storage.
\<close>

definition cleared :: "world \<Rightarrow> bool" where
  "cleared w \<longleftrightarrow>
     user w = None \<and> profile w = None \<and> \<not> isAuthenticated w \<and>
     localStorage w ''admin_token'' = None \<and> localStorage w ''token'' = None"

text \<open>
  The session invariant of the data model. A token is present, and the default header is
  set, when the code's own test finds them: \<open>getToken()\<close> is truthy, the header is truthy.
\<close>

definition session_inv :: "world \<Rightarrow> bool" where
  "session_inv w \<longleftrightarrow> (isAuthenticated w \<longrightarrow> truthy (getToken w) \<and> truthy (authHeader w))"

text \<open>
  The states the component runs through: the mount over any storage, then any sequence of
  its operations and of other requests made through the shared axios client, with any
  answers. A later mount starts from new React state and keeps storage and the axios
  defaults.
\<close>

inductive reachable :: "world \<Rightarrow> bool" where
  mount: "reachable (initAuth check_out profile_out (mounted st))"
| remount: "reachable w \<Longrightarrow>
     reachable (initAuth check_out profile_out
                 (w\<lparr>user := None, profile := None, loading := True, isAuthenticated := False\<rparr>))"
| signIn: "reachable w \<Longrightarrow>
     reachable (snd (signIn stringify email password login_out profile_out w))"
| signOut: "reachable w \<Longrightarrow> reachable (signOut (logout_out :: unit outcome) w)"
| refreshProfile: "reachable w \<Longrightarrow> reachable (refreshProfile profile_out w)"
| other_request: "reachable w \<Longrightarrow> reachable (snd (axios_call (out :: unit outcome) w))"

text \<open>The default header is absent or a non-empty string.\<close>

definition header_ok :: "world \<Rightarrow> bool" where
  "header_ok w \<longleftrightarrow> authHeader w = None \<or> truthy (authHeader w)"

text \<open>The state of a fresh mount (lines 59 to 62) over an empty storage.\<close>

definition fresh :: world where
  "fresh = \<lparr>localStorage = Map.empty, authHeader = None, user = None, profile = None,
            loading = True, isAuthenticated = False\<rparr>"

text \<open>The user and the login answer of the scenario in the specification.\<close>

definition user_a :: User where
  "user_a = \<lparr>u_id = 1, u_name = ''A'', u_email = ''a@x.com'', u_role = ''admin'',
             u_full_name = None, u_api_token = None\<rparr>"

definition login_abc :: login_data where
  "login_abc = \<lparr>l_success = None, l_token = Some ''abc123'', l_user = Some user_a,
                l_message = None\<rparr>"

text \<open>A stand-in for \<open>JSON.stringify\<close> in the samples.\<close>

definition show_user :: "User \<Rightarrow> string" where
  "show_user u = ''{email:'' @ u_email u @ ''}''"

text \<open>A signed-in session holding the token \<open>abc123\<close>.\<close>

definition session_abc :: world where
  "session_abc =
     \<lparr>localStorage = [''admin_token'' \<mapsto> ''abc123'', ''token'' \<mapsto> ''abc123'',
                      ''user'' \<mapsto> show_user user_a],
      authHeader = Some ''Bearer abc123'', user = Some user_a, profile = None,
      loading = False, isAuthenticated = True\<rparr>"

text \<open>
  A mount over a storage that still holds the token \<open>old\<close> of an earlier visit, after the
  effect of lines 339 to 344 has set the default header and before \<open>checkAuth\<close> has
  answered.
\<close>

definition stale :: world where
  "stale = \<lparr>localStorage = [''admin_token'' \<mapsto> ''old'', ''token'' \<mapsto> ''old''],
            authHeader = Some ''Bearer old'', user = None, profile = None,
            loading = True, isAuthenticated = False\<rparr>"

text \<open>Rejections: a 401 and a 500 answer without body, and a transport failure.\<close>

definition unauthorized :: js_error where
  "unauthorized = \<lparr>err_message = ''Request failed with status code 401'',
                   err_response = Some \<lparr>err_status = 401, err_data = None\<rparr>\<rparr>"

definition server_error :: js_error where
  "server_error = \<lparr>err_message = ''Request failed with status code 500'',
                   err_response = Some \<lparr>err_status = 500, err_data = None\<rparr>\<rparr>"

definition network_error :: js_error where
  "network_error = \<lparr>err_message = ''Network Error'', err_response = None\<rparr>"

text \<open>
  Login answers without a usable token (\<open>{success: true}\<close>, \<open>{success: true, token: ""}\<close>,
  \<open>{success: false, message: "account locked"}\<close>) and one whose token is in
  \<open>user.api_token\<close> only.
\<close>

definition login_success_only :: login_data where
  "login_success_only = \<lparr>l_success = Some True, l_token = None, l_user = None,
                         l_message = None\<rparr>"

definition login_empty_token :: login_data where
  "login_empty_token = \<lparr>l_success = Some True, l_token = Some [], l_user = None,
                        l_message = None\<rparr>"

definition login_message_only :: login_data where
  "login_message_only = \<lparr>l_success = Some False, l_token = None, l_user = None,
                         l_message = Some ''account locked''\<rparr>"

definition login_nested :: login_data where
  "login_nested = \<lparr>l_success = Some True, l_token = None,
                   l_user = Some (user_a\<lparr>u_api_token := Some ''nested42''\<rparr>),
                   l_message = None\<rparr>"

text \<open>
  The login answer \<open>200\<close> with the JSON body \<open>null\<close>; the text is the one V8 gives for
  \<open>Object.keys(null)\<close>.
\<close>

definition null_body :: login_body where
  "null_body = NonObjectBody ''Cannot convert undefined or null to object''"

text \<open>A profile answer, and a request whose caller chose its own \<open>Authorization\<close>.\<close>

definition profile_a :: profile_data where
  "profile_a = \<lparr>pr_success = True,
                pr_data = Some \<lparr>p_id = 1, p_name = ''A'', p_email = ''a@x.com'',
                                p_role = ''admin'', p_full_name = ''A A''\<rparr>\<rparr>"

definition basic_config :: config where
  "basic_config = \<lparr>headers = Some [''Authorization'' \<mapsto> ''Basic xyz'']\<rparr>"

definition basic_init :: request_init where
  "basic_init = \<lparr>ri_headers = Some [''Authorization'' \<mapsto> ''Basic xyz'']\<rparr>"

section \<open>Basic facts\<close>

lemma cleared_clearSession: "cleared (clearSession w)"
  by (simp add: cleared_def clearSession_def removeToken_def)

lemma interceptor_401: "status_of e = Some 401 \<Longrightarrow> responseInterceptor e w = clearSession w"
  by (simp add: responseInterceptor_def)

lemma call_401:
  "status_of e = Some 401 \<Longrightarrow> axios_call (Rejected e) w = (Rejected e, clearSession w)"
  by (simp add: axios_call_def responseInterceptor_def)

lemma fetchProfile_401:
  "status_of e = Some 401 \<Longrightarrow> fetchProfile (Rejected e) w = clearSession w"
  by (simp add: fetchProfile_def call_401)

lemma signOut_clear: "signOut out w = clearSession (snd (axios_call out w))"
  by (simp add: signOut_def split: prod.splits)

lemma status_unauthorized: "status_of unauthorized = Some 401"
  by (simp add: status_of_def unauthorized_def)

lemma token_session_abc: "getToken session_abc = Some ''abc123''"
  by (simp add: getToken_def js_or_def session_abc_def)

section \<open>A 401 answer clears the session\<close>

lemma signOut_cleared: "cleared (signOut out w)"
  by (simp add: signOut_clear cleared_clearSession)

lemma checkAuth_401_cleared:
  "status_of e = Some 401 \<Longrightarrow> truthy (getToken w) \<Longrightarrow>
   cleared (checkAuth (Rejected e) profile_out w)"
  using cleared_clearSession [of "clearSession (w\<lparr>authHeader := Some (bearer (getToken w))\<rparr>)"]
  by (simp add: checkAuth_def call_401 Let_def cleared_def)

lemma checkAuth_profile_401_cleared:
  "status_of e = Some 401 \<Longrightarrow> truthy (getToken w) \<Longrightarrow> c_authenticated d \<Longrightarrow>
   c_user d \<noteq> None \<Longrightarrow> cleared (checkAuth (Resolved d) (Rejected e) w)"
  by (simp add: checkAuth_def fetchProfile_401 Let_def axios_call_def cleared_def
      clearSession_def removeToken_def)

lemma signIn_401_cleared:
  "status_of e = Some 401 \<Longrightarrow>
   cleared (snd (signIn stringify email password (Rejected e) profile_out w))"
  by (simp add: signIn_def call_401 Let_def signIn_catch_def cleared_def clearSession_def
      removeToken_def)

lemma signIn_profile_401_cleared:
  "status_of e = Some 401 \<Longrightarrow> truthy (extractToken d) \<Longrightarrow>
   cleared (snd (signIn stringify email password (Resolved (ObjectBody d)) (Rejected e) w))"
  by (cases "extractToken d")
    (simp_all add: signIn_def fetchProfile_401 Let_def axios_call_def cleared_clearSession)

text \<open>
  Claim C1. Whenever a request is answered with status 401, the session is cleared: no
  user, no profile, \<open>isAuthenticated\<close> false, and neither \<open>admin_token\<close> nor \<open>token\<close> left
  in storage. This holds for the interceptor step itself, for a single axios call, and at
  the end of every operation at each of its request sites: the profile request of
  \<open>refreshProfile\<close>, the logout request of \<open>signOut\<close>, the verification and the profile
  request of \<open>checkAuth\<close>, the login and the profile request of \<open>signIn\<close>. The side
  conditions say that the request in question is issued at all.
\<close>

theorem C1_unauthorized_clears_session:
  assumes "status_of e = Some 401"
  shows "cleared (responseInterceptor e w) \<and>
         cleared (snd (axios_call (Rejected e) w)) \<and>
         cleared (refreshProfile (Rejected e) w) \<and>
         cleared (signOut (Rejected e) w) \<and>
         (truthy (getToken w) \<longrightarrow> cleared (checkAuth (Rejected e) profile_out w)) \<and>
         (truthy (getToken w) \<and> c_authenticated cd \<and> c_user cd \<noteq> None \<longrightarrow>
            cleared (checkAuth (Resolved cd) (Rejected e) w)) \<and>
         cleared (snd (signIn stringify email password (Rejected e) profile_out w)) \<and>
         (truthy (extractToken ld) \<longrightarrow>
            cleared (snd (signIn stringify email password (Resolved (ObjectBody ld)) (Rejected e) w)))"
  using assms
  by (simp add: interceptor_401 call_401 refreshProfile_def fetchProfile_401
      cleared_clearSession signOut_cleared checkAuth_401_cleared
      checkAuth_profile_401_cleared signIn_401_cleared signIn_profile_401_cleared)

theorem C1_witness:
  "status_of unauthorized = Some 401 \<and>
   isAuthenticated session_abc \<and>
   truthy (getToken session_abc) \<and>
   truthy (extractToken login_abc) \<and>
   cleared (responseInterceptor unauthorized session_abc) \<and>
   cleared (snd (axios_call (Rejected unauthorized :: unit outcome) session_abc)) \<and>
   cleared (refreshProfile (Rejected unauthorized) session_abc) \<and>
   cleared (signOut (Rejected unauthorized :: unit outcome) session_abc) \<and>
   cleared (checkAuth (Rejected unauthorized) (Resolved profile_a) session_abc) \<and>
   cleared (checkAuth (Resolved \<lparr>c_authenticated = True, c_user = Some user_a\<rparr>)
              (Rejected unauthorized) session_abc) \<and>
   cleared (snd (signIn show_user ''a@x.com'' ''pw'' (Rejected unauthorized)
              (Resolved profile_a) session_abc)) \<and>
   cleared (snd (signIn show_user ''a@x.com'' ''pw'' (Resolved (ObjectBody login_abc))
              (Rejected unauthorized) session_abc))"
proof -
  have t: "truthy (getToken session_abc)"
    by (simp add: token_session_abc)
  have x: "truthy (extractToken login_abc)"
    by (simp add: extractToken_def login_abc_def)
  have a: "isAuthenticated session_abc"
    by (simp add: session_abc_def)
  show ?thesis
    using status_unauthorized t x a
      C1_unauthorized_clears_session [OF status_unauthorized, of session_abc
        "Resolved profile_a" "\<lparr>c_authenticated = True, c_user = Some user_a\<rparr>"
        show_user "''a@x.com''" "''pw''" login_abc]
    by simp
qed

section \<open>The request interceptor\<close>

text \<open>
  Claim C2, as written, fails: the interceptor does not look at the header the caller
  set. With the token \<open>abc123\<close> in storage, a request that carries
  \<open>Authorization: Basic xyz\<close> leaves the interceptor with \<open>Authorization: Bearer abc123\<close>.
\<close>

theorem C2_counterexample:
  "truthy (getToken session_abc) \<and>
   authorization_of basic_config = Some ''Basic xyz'' \<and>
   authorization_of (requestInterceptor session_abc basic_config) = Some ''Bearer abc123''"
  by (simp add: token_session_abc authorization_of_def basic_config_def
      requestInterceptor_def bearer_def)

text \<open>
  Claim C2, amended. The interceptor writes the stored token as a bearer
  \<open>Authorization\<close> header exactly when a non-empty token is in storage and the request has
  a headers object; it then replaces whatever \<open>Authorization\<close> the caller had set and
  keeps every other header. In every other case the request is returned as it came.
\<close>

theorem C2_request_interceptor_overwrites:
  "(truthy (getToken w) \<and> headers cfg = Some h \<longrightarrow>
      headers (requestInterceptor w cfg) = Some (h(''Authorization'' \<mapsto> bearer (getToken w))) \<and>
      authorization_of (requestInterceptor w cfg) = Some (bearer (getToken w))) \<and>
   (\<not> truthy (getToken w) \<or> headers cfg = None \<longrightarrow> requestInterceptor w cfg = cfg)"
  by (auto simp: requestInterceptor_def authorization_of_def Let_def split: option.splits)

theorem C2_witness:
  "truthy (getToken session_abc) \<and>
   headers basic_config = Some [''Authorization'' \<mapsto> ''Basic xyz''] \<and>
   headers (requestInterceptor session_abc basic_config) =
     Some [''Authorization'' \<mapsto> ''Basic xyz'', ''Authorization'' \<mapsto> ''Bearer abc123''] \<and>
   \<not> truthy (getToken fresh) \<and>
   requestInterceptor fresh basic_config = basic_config"
proof -
  have t: "truthy (getToken session_abc)"
    by (simp add: token_session_abc)
  have h: "headers basic_config = Some [''Authorization'' \<mapsto> ''Basic xyz'']"
    by (simp add: basic_config_def)
  have f: "\<not> truthy (getToken fresh)"
    by (simp add: getToken_def js_or_def fresh_def)
  show ?thesis
    using t h f
      C2_request_interceptor_overwrites [of session_abc basic_config
        "[''Authorization'' \<mapsto> ''Basic xyz'']"]
      C2_request_interceptor_overwrites [of fresh basic_config
        "[''Authorization'' \<mapsto> ''Basic xyz'']"]
    by (simp add: token_session_abc bearer_def)
qed

section \<open>The session invariant\<close>

lemma inv_clearSession: "session_inv (clearSession w)"
  by (simp add: session_inv_def clearSession_def)

lemma inv_profile_update: "session_inv (w\<lparr>profile := p\<rparr>) = session_inv w"
  by (simp add: session_inv_def getToken_def)

lemma inv_loading_update: "session_inv (w\<lparr>loading := b\<rparr>) = session_inv w"
  by (simp add: session_inv_def getToken_def)

lemma inv_responseInterceptor: "session_inv w \<Longrightarrow> session_inv (responseInterceptor e w)"
  by (simp add: responseInterceptor_def inv_clearSession)

lemma inv_axios_call: "session_inv w \<Longrightarrow> session_inv (snd (axios_call out w))"
  by (cases out) (simp_all add: axios_call_def inv_responseInterceptor)

lemma inv_fetchProfile: "session_inv w \<Longrightarrow> session_inv (fetchProfile profile_out w)"
  using inv_axios_call [of w profile_out]
  by (auto simp: fetchProfile_def inv_profile_update split: prod.splits outcome.splits)

lemma inv_signOut: "session_inv (signOut out w)"
  by (simp add: signOut_clear inv_clearSession)

lemma bearer_nonempty: "bearer t \<noteq> []"
  by (simp add: bearer_def)

lemma truthy_bearer: "truthy (Some (bearer t))"
  by (simp add: bearer_def)

lemma truthy_not_None: "truthy x \<Longrightarrow> x \<noteq> None"
  by (cases x) simp_all

lemma inv_checkAuth: "session_inv (checkAuth check_out profile_out w)"
proof (cases "truthy (getToken w)")
  case False
  then show ?thesis
    by (simp add: checkAuth_def session_inv_def)
next
  case True
  let ?w1 = "w\<lparr>authHeader := Some (bearer (getToken w))\<rparr>"
  show ?thesis
  proof (cases check_out)
    case (Rejected e)
    then show ?thesis
      using True by (simp add: checkAuth_def Let_def axios_call_def inv_loading_update inv_clearSession)
  next
    case (Resolved d)
    have "session_inv (?w1\<lparr>user := c_user d, isAuthenticated := True\<rparr>)"
      using True by (simp add: session_inv_def getToken_def bearer_nonempty)
    then have "session_inv (fetchProfile profile_out (?w1\<lparr>user := c_user d, isAuthenticated := True\<rparr>))"
      by (rule inv_fetchProfile)
    then show ?thesis
      using True Resolved
      by (simp add: checkAuth_def Let_def axios_call_def inv_loading_update inv_clearSession)
  qed
qed

lemma inv_signIn_catch:
  "session_inv w \<Longrightarrow> session_inv (snd (signIn_catch (authHeader w) e (w\<lparr>authHeader := None\<rparr>)))"
  by (auto simp: signIn_catch_def session_inv_def getToken_def)

lemma inv_signIn_persist: "t \<noteq> [] \<Longrightarrow> session_inv (signIn_persist stringify email d t w)"
  by (simp add: signIn_persist_def setToken_def session_inv_def getToken_def js_or_def Let_def bearer_nonempty)

lemma inv_signIn:
  assumes "session_inv w"
  shows "session_inv (snd (signIn stringify email password login_out profile_out w))"
proof (cases login_out)
  case (Rejected e)
  show ?thesis
  proof (cases "status_of e = Some 401")
    case True
    then show ?thesis
      using Rejected
      by (simp add: signIn_def Let_def call_401 signIn_catch_def session_inv_def clearSession_def)
  next
    case False
    then show ?thesis
      using Rejected inv_signIn_catch [OF assms, of e]
      by (simp add: signIn_def Let_def axios_call_def responseInterceptor_def)
  qed
next
  case (Resolved b)
  show ?thesis
  proof (cases b)
    case (NonObjectBody m)
    then show ?thesis
      using Resolved inv_signIn_catch [OF assms, of "typeError m"]
      by (simp add: signIn_def Let_def axios_call_def)
  next
    case (ObjectBody d)
    show ?thesis
    proof (cases "extractToken d")
      case None
      then show ?thesis
        using Resolved ObjectBody inv_signIn_catch [OF assms, of noTokenError]
        by (simp add: signIn_def Let_def axios_call_def)
    next
      case (Some t)
      show ?thesis
      proof (cases "t = []")
        case True
        then show ?thesis
          using Resolved ObjectBody Some inv_signIn_catch [OF assms, of noTokenError]
          by (simp add: signIn_def Let_def axios_call_def)
      next
        case False
        then show ?thesis
          using Resolved ObjectBody Some
          by (simp add: signIn_def Let_def axios_call_def inv_fetchProfile inv_signIn_persist)
      qed
    qed
  qed
qed

text \<open>
  Claim C3. If \<open>isAuthenticated\<close> is true, then a token is present in storage and the
  default \<open>Authorization\<close> header is set; every operation keeps this: \<open>signIn\<close>,
  \<open>signOut\<close>, \<open>checkAuth\<close>, \<open>refreshProfile\<close> and the interceptor step, for every answer
  of the server. Presence is the test of the code (truthiness), which implies that
  neither value is \<open>null\<close> or \<open>undefined\<close> (last conjunct). Nothing is claimed in the other
  direction.
\<close>

theorem C3_session_invariant_preserved:
  assumes "session_inv w"
  shows "session_inv (snd (signIn stringify email password login_out profile_out w)) \<and>
         session_inv (signOut logout_out w) \<and>
         session_inv (checkAuth check_out profile_out w) \<and>
         session_inv (refreshProfile profile_out w) \<and>
         session_inv (responseInterceptor e w) \<and>
         (isAuthenticated w \<longrightarrow> getToken w \<noteq> None \<and> authHeader w \<noteq> None)"
proof -
  have "isAuthenticated w \<longrightarrow> getToken w \<noteq> None \<and> authHeader w \<noteq> None"
    using assms by (simp add: session_inv_def truthy_not_None)
  then show ?thesis
    using assms
    by (simp add: inv_signIn inv_signOut inv_checkAuth refreshProfile_def inv_fetchProfile
        inv_responseInterceptor)
qed

theorem C3_witness:
  "session_inv session_abc \<and> isAuthenticated session_abc \<and>
   session_inv (snd (signIn show_user ''a@x.com'' ''pw'' (Rejected server_error)
                  (Resolved profile_a) session_abc)) \<and>
   session_inv (signOut (Rejected network_error :: unit outcome) session_abc) \<and>
   session_inv (checkAuth (Rejected network_error) (Resolved profile_a) session_abc) \<and>
   session_inv (refreshProfile (Resolved profile_a) session_abc) \<and>
   session_inv (responseInterceptor unauthorized session_abc) \<and>
   getToken session_abc \<noteq> None \<and> authHeader session_abc \<noteq> None"
proof -
  have i: "session_inv session_abc"
    by (simp add: session_inv_def token_session_abc) (simp add: session_abc_def)
  have a: "isAuthenticated session_abc"
    by (simp add: session_abc_def)
  show ?thesis
    using i a
      C3_session_invariant_preserved [OF i, of show_user "''a@x.com''" "''pw''"
        "Rejected server_error" "Resolved profile_a" "Rejected network_error :: unit outcome"
        "Rejected network_error" unauthorized]
    by simp
qed

section \<open>Signing in\<close>

lemma extractToken_top: "l_token d = Some t \<Longrightarrow> t \<noteq> [] \<Longrightarrow> extractToken d = Some t"
  by (simp add: extractToken_def)

lemma extractToken_nested:
  "\<not> truthy (l_token d) \<Longrightarrow> api_token_of d = Some t \<Longrightarrow> t \<noteq> [] \<Longrightarrow> extractToken d = Some t"
  by (simp add: extractToken_def)

lemma extractToken_none:
  "\<not> truthy (l_token d) \<Longrightarrow> \<not> truthy (api_token_of d) \<Longrightarrow> extractToken d = None"
  by (simp add: extractToken_def)

lemma signIn_found:
  "extractToken d = Some t \<Longrightarrow> t \<noteq> [] \<Longrightarrow>
   signIn stringify email password (Resolved (ObjectBody d)) profile_out w =
     (Inr (), fetchProfile profile_out
                (signIn_persist stringify email d t (w\<lparr>authHeader := None\<rparr>)))"
  by (simp add: signIn_def Let_def axios_call_def)

lemma holds_token_persist: "holds_token t (signIn_persist stringify email d t w)"
  by (simp add: holds_token_def signIn_persist_def setToken_def Let_def bearer_def)

lemma fetchProfile_keeps_token:
  "\<not> answered_401 profile_out \<Longrightarrow> holds_token t w \<Longrightarrow> holds_token t (fetchProfile profile_out w)"
  by (cases profile_out)
    (simp_all add: answered_401_def fetchProfile_def axios_call_def responseInterceptor_def
      holds_token_def)

lemma signIn_stores:
  assumes "extractToken d = Some t" and "t \<noteq> []"
  shows "signIn stringify email password (Resolved (ObjectBody d)) profile_out w =
           (Inr (), fetchProfile profile_out
                      (signIn_persist stringify email d t (w\<lparr>authHeader := None\<rparr>))) \<and>
         holds_token t (signIn_persist stringify email d t (w\<lparr>authHeader := None\<rparr>)) \<and>
         (\<not> answered_401 profile_out \<longrightarrow>
            holds_token t (snd (signIn stringify email password (Resolved (ObjectBody d)) profile_out w)))"
  using assms
  by (simp add: signIn_found holds_token_persist fetchProfile_keeps_token)

lemma signIn_message_noToken: "signIn_message noTokenError = ''Login failed - no token in response.''"
  by (simp add: signIn_message_def noTokenError_def status_of_def message_of_def data_of_def)

lemma signIn_not_found:
  "extractToken d = None \<Longrightarrow>
   signIn stringify email password (Resolved (ObjectBody d)) profile_out w =
     (Inl ''Login failed - no token in response.'',
      if truthy (authHeader w) then w else w\<lparr>authHeader := None\<rparr>)"
  by (simp add: signIn_def Let_def axios_call_def signIn_catch_def signIn_message_noToken)

text \<open>
  Claim C4, as written, fails for a login answer whose top-level \<open>token\<close> field is the
  empty string: the field is there, yet nothing is persisted, \<open>signIn\<close> throws and the
  world is what it was.
\<close>

theorem C4_counterexample:
  "l_token login_empty_token = Some [] \<and>
   signIn show_user ''a@x.com'' ''pw'' (Resolved (ObjectBody login_empty_token)) (Resolved profile_a) fresh =
     (Inl ''Login failed - no token in response.'', fresh)"
  by (simp add: login_empty_token_def signIn_def Let_def axios_call_def extractToken_def
      api_token_of_def signIn_catch_def signIn_message_def noTokenError_def status_of_def
      message_of_def data_of_def fresh_def)

text \<open>
  Claim C4, amended. The token is searched in a fixed order. If the top-level \<open>token\<close>
  is a non-empty string \<open>t\<close>, lines 250 to 265 persist exactly \<open>t\<close> (both storage keys,
  the default header \<open>Bearer t\<close>) and set \<open>isAuthenticated\<close>; if the top-level token is
  missing or empty and \<open>user.api_token\<close> is a non-empty string \<open>t\<close>, the same happens with
  that nested value. \<open>signIn\<close> then returns normally, in the state the profile fetch
  leaves, which still holds \<open>t\<close> unless the profile request was answered 401.
\<close>

theorem C4_token_search_order:
  "(l_token d = Some t \<and> t \<noteq> [] \<longrightarrow>
      signIn stringify email password (Resolved (ObjectBody d)) profile_out w =
        (Inr (), fetchProfile profile_out
                   (signIn_persist stringify email d t (w\<lparr>authHeader := None\<rparr>))) \<and>
      holds_token t (signIn_persist stringify email d t (w\<lparr>authHeader := None\<rparr>)) \<and>
      (\<not> answered_401 profile_out \<longrightarrow>
         holds_token t (snd (signIn stringify email password (Resolved (ObjectBody d)) profile_out w)))) \<and>
   (\<not> truthy (l_token d) \<and> api_token_of d = Some t \<and> t \<noteq> [] \<longrightarrow>
      signIn stringify email password (Resolved (ObjectBody d)) profile_out w =
        (Inr (), fetchProfile profile_out
                   (signIn_persist stringify email d t (w\<lparr>authHeader := None\<rparr>))) \<and>
      holds_token t (signIn_persist stringify email d t (w\<lparr>authHeader := None\<rparr>)) \<and>
      (\<not> answered_401 profile_out \<longrightarrow>
         holds_token t (snd (signIn stringify email password (Resolved (ObjectBody d)) profile_out w))))"
  using signIn_stores [of d t stringify email password profile_out w]
  by (auto dest: extractToken_top extractToken_nested)

theorem C4_witness:
  "l_token login_abc = Some ''abc123'' \<and>
   \<not> answered_401 (Resolved profile_a) \<and>
   holds_token ''abc123'' (snd (signIn show_user ''a@x.com'' ''pw'' (Resolved (ObjectBody login_abc))
                                 (Resolved profile_a) fresh)) \<and>
   fst (signIn show_user ''a@x.com'' ''pw'' (Resolved (ObjectBody login_abc)) (Resolved profile_a) fresh) =
     Inr () \<and>
   \<not> truthy (l_token login_nested) \<and>
   api_token_of login_nested = Some ''nested42'' \<and>
   holds_token ''nested42'' (snd (signIn show_user ''a@x.com'' ''pw'' (Resolved (ObjectBody login_nested))
                                   (Resolved profile_a) fresh)) \<and>
   fst (signIn show_user ''a@x.com'' ''pw'' (Resolved (ObjectBody login_nested)) (Resolved profile_a) fresh) =
     Inr ()"
proof -
  have a: "l_token login_abc = Some ''abc123''"
    by (simp add: login_abc_def)
  have p: "\<not> answered_401 (Resolved profile_a)"
    by (simp add: answered_401_def)
  have n: "\<not> truthy (l_token login_nested)"
    by (simp add: login_nested_def)
  have m: "api_token_of login_nested = Some ''nested42''"
    by (simp add: api_token_of_def login_nested_def)
  show ?thesis
    using a p n m
      C4_token_search_order [of login_abc "''abc123''" show_user "''a@x.com''" "''pw''"
        "Resolved profile_a" fresh]
      C4_token_search_order [of login_nested "''nested42''" show_user "''a@x.com''" "''pw''"
        "Resolved profile_a" fresh]
    by auto
qed

lemma signIn_non_object:
  "signIn stringify email password (Resolved (NonObjectBody m)) profile_out w =
     (Inl (signIn_message (typeError m)),
      if truthy (authHeader w) then w else w\<lparr>authHeader := None\<rparr>)"
  by (simp add: signIn_def Let_def axios_call_def signIn_catch_def)

text \<open>
  Claim C5, as written, fails for a 2xx login answer whose body is no object. The body
  \<open>null\<close> contains neither a token nor \<open>user.api_token\<close>, yet the logging at line 205
  throws before the token search, and what \<open>signIn\<close> rethrows is the fallback error, not
  the no-token error. The state is what the claim says: nothing is stored, the flag stays
  false, the header is back.
\<close>

theorem C5_counterexample:
  "signIn show_user ''a@x.com'' ''pw'' (Resolved null_body) (Resolved profile_a) stale =
     (Inl ''Login failed. Please try again.'', stale)"
  by (simp add: null_body_def signIn_non_object signIn_message_def typeError_def
      status_of_def message_of_def data_of_def)
    (simp add: stale_def)

text \<open>
  Claim C5, amended. A login answer whose body is a JSON object with neither a top-level
  token nor \<open>user.api_token\<close> makes \<open>signIn\<close> throw the no-token error. For such an answer,
  and for a 2xx answer whose body is no object, \<open>isAuthenticated\<close> keeps its value (so it
  stays false), storage is not touched, user and profile are not touched, and the default
  header that was set before the call is back in place. The header counts as set when the
  \<open>catch\<close> block finds it truthy; otherwise no header is set afterwards. Which error a
  body that is no object ends in is not part of the statement.
\<close>

theorem C5_no_token_in_response:
  "(\<not> truthy (l_token d) \<and> \<not> truthy (api_token_of d) \<longrightarrow>
      fst (signIn stringify email password (Resolved (ObjectBody d)) profile_out w) =
        Inl ''Login failed - no token in response.'' \<and>
      isAuthenticated (snd (signIn stringify email password (Resolved (ObjectBody d))
                              profile_out w)) = isAuthenticated w \<and>
      localStorage (snd (signIn stringify email password (Resolved (ObjectBody d))
                           profile_out w)) = localStorage w \<and>
      authHeader (snd (signIn stringify email password (Resolved (ObjectBody d))
                         profile_out w)) =
        (if truthy (authHeader w) then authHeader w else None) \<and>
      user (snd (signIn stringify email password (Resolved (ObjectBody d)) profile_out w)) =
        user w \<and>
      profile (snd (signIn stringify email password (Resolved (ObjectBody d)) profile_out w)) =
        profile w) \<and>
   isAuthenticated (snd (signIn stringify email password (Resolved (NonObjectBody m))
                           profile_out w)) = isAuthenticated w \<and>
   localStorage (snd (signIn stringify email password (Resolved (NonObjectBody m))
                        profile_out w)) = localStorage w \<and>
   authHeader (snd (signIn stringify email password (Resolved (NonObjectBody m))
                      profile_out w)) =
     (if truthy (authHeader w) then authHeader w else None) \<and>
   user (snd (signIn stringify email password (Resolved (NonObjectBody m)) profile_out w)) =
     user w \<and>
   profile (snd (signIn stringify email password (Resolved (NonObjectBody m)) profile_out w)) =
     profile w"
  by (simp add: signIn_not_found extractToken_none signIn_non_object)

theorem C5_witness:
  "\<not> truthy (l_token login_success_only) \<and>
   \<not> truthy (api_token_of login_success_only) \<and>
   \<not> isAuthenticated stale \<and>
   fst (signIn show_user ''a@x.com'' ''pw'' (Resolved (ObjectBody login_success_only))
          (Resolved profile_a) stale) = Inl ''Login failed - no token in response.'' \<and>
   \<not> isAuthenticated (snd (signIn show_user ''a@x.com'' ''pw''
          (Resolved (ObjectBody login_success_only)) (Resolved profile_a) stale)) \<and>
   localStorage (snd (signIn show_user ''a@x.com'' ''pw''
          (Resolved (ObjectBody login_success_only)) (Resolved profile_a) stale)) =
     localStorage stale \<and>
   authHeader (snd (signIn show_user ''a@x.com'' ''pw''
          (Resolved (ObjectBody login_success_only)) (Resolved profile_a) stale)) =
     Some ''Bearer old'' \<and>
   \<not> isAuthenticated (snd (signIn show_user ''a@x.com'' ''pw'' (Resolved null_body)
          (Resolved profile_a) stale)) \<and>
   localStorage (snd (signIn show_user ''a@x.com'' ''pw'' (Resolved null_body)
          (Resolved profile_a) stale)) = localStorage stale \<and>
   authHeader (snd (signIn show_user ''a@x.com'' ''pw'' (Resolved null_body)
          (Resolved profile_a) stale)) = Some ''Bearer old''"
proof -
  have t: "\<not> truthy (l_token login_success_only)"
    by (simp add: login_success_only_def)
  have n: "\<not> truthy (api_token_of login_success_only)"
    by (simp add: api_token_of_def login_success_only_def)
  have h: "authHeader stale = Some ''Bearer old''" and a: "\<not> isAuthenticated stale"
    by (simp_all add: stale_def)
  show ?thesis
    using t n a
      C5_no_token_in_response [of login_success_only show_user "''a@x.com''" "''pw''"
        "Resolved profile_a" stale "''Cannot convert undefined or null to object''"]
    by (simp add: h null_body_def)
qed

text \<open>
  Claim C6 does not hold of the code. The error thrown at line 247 carries no response,
  so the \<open>catch\<close> block finds no payload to append: for the answer \<open>{success: true}\<close> and
  for the answer \<open>{success: false, message: "account locked"}\<close> the message surfaced is the
  same fixed text, with nothing of the payload in it.
\<close>

theorem C6_payload_not_echoed:
  "fst (signIn show_user ''a@x.com'' ''pw'' (Resolved (ObjectBody login_success_only))
          (Resolved profile_a) fresh) = Inl ''Login failed - no token in response.'' \<and>
   fst (signIn show_user ''a@x.com'' ''pw'' (Resolved (ObjectBody login_message_only))
          (Resolved profile_a) fresh) = Inl ''Login failed - no token in response.''"
  by (simp add: signIn_not_found extractToken_def api_token_of_def login_success_only_def
      login_message_only_def)

section \<open>Signing out\<close>

lemma clearSession_idem: "clearSession (clearSession w) = clearSession w"
  by (simp add: clearSession_def removeToken_def)

lemma signOut_eq: "signOut logout_out w = clearSession w"
  by (cases logout_out)
    (simp_all add: signOut_def axios_call_def responseInterceptor_def clearSession_idem)

text \<open>
  Claim C7. Whatever the logout request does (it resolves, it is rejected with or
  without a response), \<open>signOut\<close> ends in the same state: the three storage keys
  removed, no default header, no user, no profile, \<open>isAuthenticated\<close> false.
\<close>

theorem C7_signOut_always_clears:
  "signOut logout_out w = clearSession w \<and>
   localStorage (signOut logout_out w) ''admin_token'' = None \<and>
   localStorage (signOut logout_out w) ''token'' = None \<and>
   localStorage (signOut logout_out w) ''user'' = None \<and>
   authHeader (signOut logout_out w) = None \<and>
   user (signOut logout_out w) = None \<and>
   profile (signOut logout_out w) = None \<and>
   \<not> isAuthenticated (signOut logout_out w)"
  by (simp add: signOut_eq clearSession_def removeToken_def)

section \<open>Refreshing the profile\<close>

lemma refreshProfile_cases:
  "refreshProfile (Resolved d) w =
     (if pr_success d \<and> pr_data d \<noteq> None then w\<lparr>profile := pr_data d\<rparr> else w)"
  "refreshProfile (Rejected e) w = (if status_of e = Some 401 then clearSession w else w)"
  by (simp_all add: refreshProfile_def fetchProfile_def axios_call_def responseInterceptor_def)

text \<open>
  Claim C8, as written, fails: a profile request answered 401 passes through the
  response interceptor, which clears the session, so \<open>refreshProfile\<close> turns an
  authenticated session into an unauthenticated one.
\<close>

theorem C8_counterexample:
  "isAuthenticated session_abc \<and>
   \<not> isAuthenticated (refreshProfile (Rejected unauthorized) session_abc)"
  by (simp add: refreshProfile_def fetchProfile_401 status_unauthorized clearSession_def)
    (simp add: session_abc_def)

text \<open>
  Claim C8, amended. Unless the profile request is answered 401, \<open>refreshProfile\<close>
  leaves \<open>isAuthenticated\<close> as it was: a resolved request with \<open>success\<close> and \<open>data\<close>
  overwrites the profile and nothing else, any other resolved request and any rejection
  other than a 401 change nothing. A 401 answer clears the session.
\<close>

theorem C8_refreshProfile_frame:
  "(\<not> answered_401 profile_out \<longrightarrow>
      isAuthenticated (refreshProfile profile_out w) = isAuthenticated w) \<and>
   (pr_success d \<and> pr_data d \<noteq> None \<longrightarrow>
      refreshProfile (Resolved d) w = w\<lparr>profile := pr_data d\<rparr>) \<and>
   (\<not> (pr_success d \<and> pr_data d \<noteq> None) \<longrightarrow> refreshProfile (Resolved d) w = w) \<and>
   (status_of e \<noteq> Some 401 \<longrightarrow> refreshProfile (Rejected e) w = w) \<and>
   (status_of e = Some 401 \<longrightarrow> refreshProfile (Rejected e) w = clearSession w)"
  by (cases profile_out) (auto simp: refreshProfile_cases answered_401_def)

theorem C8_witness:
  "\<not> answered_401 (Rejected server_error :: profile_data outcome) \<and>
   isAuthenticated session_abc \<and>
   isAuthenticated (refreshProfile (Rejected server_error) session_abc) \<and>
   pr_success profile_a \<and> pr_data profile_a \<noteq> None \<and>
   refreshProfile (Resolved profile_a) session_abc = session_abc\<lparr>profile := pr_data profile_a\<rparr> \<and>
   status_of server_error \<noteq> Some 401 \<and>
   refreshProfile (Rejected server_error) session_abc = session_abc \<and>
   status_of unauthorized = Some 401 \<and>
   refreshProfile (Rejected unauthorized) session_abc = clearSession session_abc"
proof -
  have s: "status_of server_error \<noteq> Some 401"
    by (simp add: status_of_def server_error_def)
  have n: "\<not> answered_401 (Rejected server_error :: profile_data outcome)"
    by (simp add: answered_401_def s)
  have p: "pr_success profile_a \<and> pr_data profile_a \<noteq> None"
    by (simp add: profile_a_def)
  have a: "isAuthenticated session_abc"
    by (simp add: session_abc_def)
  show ?thesis
    using s n p a status_unauthorized
      C8_refreshProfile_frame [of "Rejected server_error" session_abc profile_a server_error]
      C8_refreshProfile_frame [of "Rejected server_error" session_abc profile_a unauthorized]
    by simp
qed

section \<open>Checking the stored token\<close>

lemma checkAuth_not_affirmative:
  "truthy (getToken w) \<Longrightarrow> \<not> (c_authenticated d \<and> c_user d \<noteq> None) \<Longrightarrow>
   checkAuth (Resolved d) profile_out w = (clearSession w)\<lparr>loading := False\<rparr>"
  by (auto simp: checkAuth_def Let_def axios_call_def clearSession_def removeToken_def)

text \<open>
  Claim C9. With a token in storage, a verification answer that says \<open>authenticated\<close>
  but carries no user is a failure: \<open>checkAuth\<close> ends in the cleared session (token gone
  from both keys, no user, no profile, \<open>isAuthenticated\<close> false) with \<open>loading\<close> false,
  which is also where a negative answer ends.
\<close>

theorem C9_authenticated_without_user:
  assumes "truthy (getToken w)"
  shows "checkAuth (Resolved \<lparr>c_authenticated = True, c_user = None\<rparr>) profile_out w =
           (clearSession w)\<lparr>loading := False\<rparr> \<and>
         cleared (checkAuth (Resolved \<lparr>c_authenticated = True, c_user = None\<rparr>) profile_out w) \<and>
         checkAuth (Resolved \<lparr>c_authenticated = True, c_user = None\<rparr>) profile_out w =
           checkAuth (Resolved \<lparr>c_authenticated = False, c_user = u\<rparr>) profile_out w"
  using assms cleared_clearSession [of w]
  by (simp add: checkAuth_not_affirmative cleared_def)

theorem C9_witness:
  "truthy (getToken stale) \<and>
   cleared (checkAuth (Resolved \<lparr>c_authenticated = True, c_user = None\<rparr>)
              (Resolved profile_a) stale) \<and>
   checkAuth (Resolved \<lparr>c_authenticated = True, c_user = None\<rparr>) (Resolved profile_a) stale =
     checkAuth (Resolved \<lparr>c_authenticated = False, c_user = Some user_a\<rparr>)
       (Resolved profile_a) stale"
proof -
  have t: "truthy (getToken stale)"
    by (simp add: getToken_def js_or_def stale_def)
  show ?thesis
    using t C9_authenticated_without_user [OF t, of "Resolved profile_a" "Some user_a"]
    by auto
qed

section \<open>The helper exports\<close>

lemma no_token_bearer:
  "localStorage w ''admin_token'' = None \<Longrightarrow> localStorage w ''token'' = None \<Longrightarrow>
   bearer (getToken w) = ''Bearer null''"
  by (simp add: getToken_def js_or_def bearer_def)

lemma getAuthHeaders_authorization: "getAuthHeaders w ''Authorization'' = Some (bearer (getToken w))"
  by (simp add: getAuthHeaders_def getToken_def Let_def)

lemma getAuthAxiosConfig_authorization:
  "authorization_of (getAuthAxiosConfig w) = Some (bearer (getToken w))"
  by (simp add: getAuthAxiosConfig_def authorization_of_def getToken_def Let_def)

lemma authFetch_authorization:
  "fetch_authorization (authFetch w url options) =
     (case init_authorization options of
        None \<Rightarrow> Some (bearer (getToken w))
      | Some v \<Rightarrow> Some v)"
  by (simp add: authFetch_def fetch_authorization_def init_authorization_def getToken_def
      Let_def map_add_def split: option.splits)

text \<open>
  Claim C10, as written, fails for \<open>authFetch\<close>: the caller's \<open>options.headers\<close> are
  spread after the wrapper's own entries, so with nothing in storage and a caller who
  passes \<open>Authorization: Basic xyz\<close> the header handed to \<open>fetch\<close> is the caller's, not
  \<open>Bearer null\<close>.
\<close>

theorem C10_counterexample:
  "localStorage fresh ''admin_token'' = None \<and>
   localStorage fresh ''token'' = None \<and>
   fetch_authorization (authFetch fresh ''/api/admin/items'' basic_init) = Some ''Basic xyz''"
  by (simp add: fresh_def authFetch_def fetch_authorization_def basic_init_def Let_def)

text \<open>
  Claim C10, amended. All three helpers always produce an \<open>Authorization\<close> entry. With
  no token under either key, \<open>getAuthHeaders\<close> and \<open>getAuthAxiosConfig\<close> give it the value
  \<open>Bearer null\<close>, and so does \<open>authFetch\<close> when the caller's \<open>options.headers\<close> has no
  \<open>Authorization\<close> entry; an entry of the caller's replaces the wrapper's.
\<close>

theorem C10_helpers_bearer_null:
  "getAuthHeaders w ''Authorization'' \<noteq> None \<and>
   authorization_of (getAuthAxiosConfig w) \<noteq> None \<and>
   fetch_authorization (authFetch w url options) \<noteq> None \<and>
   (init_authorization options = Some v \<longrightarrow>
      fetch_authorization (authFetch w url options) = Some v) \<and>
   (localStorage w ''admin_token'' = None \<and> localStorage w ''token'' = None \<longrightarrow>
      getAuthHeaders w ''Authorization'' = Some ''Bearer null'' \<and>
      authorization_of (getAuthAxiosConfig w) = Some ''Bearer null'' \<and>
      (init_authorization options = None \<longrightarrow>
         fetch_authorization (authFetch w url options) = Some ''Bearer null''))"
  by (simp add: getAuthHeaders_authorization getAuthAxiosConfig_authorization
      authFetch_authorization no_token_bearer split: option.splits)

theorem C10_witness:
  "localStorage fresh ''admin_token'' = None \<and> localStorage fresh ''token'' = None \<and>
   init_authorization \<lparr>ri_headers = None\<rparr> = None \<and>
   init_authorization basic_init = Some ''Basic xyz'' \<and>
   getAuthHeaders fresh ''Authorization'' = Some ''Bearer null'' \<and>
   authorization_of (getAuthAxiosConfig fresh) = Some ''Bearer null'' \<and>
   fetch_authorization (authFetch fresh ''/api/admin/items'' \<lparr>ri_headers = None\<rparr>) =
     Some ''Bearer null'' \<and>
   fetch_authorization (authFetch fresh ''/api/admin/items'' basic_init) = Some ''Basic xyz''"
proof -
  have k: "localStorage fresh ''admin_token'' = None \<and> localStorage fresh ''token'' = None"
    by (simp add: fresh_def)
  have n: "init_authorization \<lparr>ri_headers = None\<rparr> = None"
    by (simp add: init_authorization_def)
  have b: "init_authorization basic_init = Some ''Basic xyz''"
    by (simp add: init_authorization_def basic_init_def)
  show ?thesis
    using k n b
      C10_helpers_bearer_null [of fresh "''/api/admin/items''" "\<lparr>ri_headers = None\<rparr>" "''x''"]
      C10_helpers_bearer_null [of fresh "''/api/admin/items''" basic_init "''Basic xyz''"]
    by simp
qed

section \<open>Reachable states\<close>

text \<open>
  In every state the component can reach the session invariant holds, and a default
  header that is set is never the empty string; so in these states a header that is
  present at all is truthy, and the invariant holds in the reading by presence as well.
  The signed-in sample session is one of these states.
\<close>

lemma ok_clearSession: "header_ok (clearSession w)"
  by (simp add: header_ok_def clearSession_def removeToken_def)

lemma ok_axios_call: "header_ok w \<Longrightarrow> header_ok (snd (axios_call out w))"
  by (cases out) (simp_all add: axios_call_def responseInterceptor_def ok_clearSession)

lemma ok_fetchProfile: "header_ok w \<Longrightarrow> header_ok (fetchProfile profile_out w)"
  using ok_axios_call [of w profile_out]
  by (auto simp: fetchProfile_def header_ok_def split: prod.splits outcome.splits)

lemma ok_checkAuth: "header_ok w \<Longrightarrow> header_ok (checkAuth check_out profile_out w)"
proof (cases "truthy (getToken w)")
  case False
  assume "header_ok w"
  with False show ?thesis
    by (simp add: checkAuth_def header_ok_def)
next
  case True
  have "header_ok (w\<lparr>authHeader := Some (bearer (getToken w)), user := u, isAuthenticated := True\<rparr>)" for u
    by (simp add: header_ok_def bearer_nonempty)
  then have "header_ok (fetchProfile profile_out
      (w\<lparr>authHeader := Some (bearer (getToken w)), user := u, isAuthenticated := True\<rparr>))" for u
    by (rule ok_fetchProfile)
  then have f: "authHeader (fetchProfile profile_out
      (w\<lparr>authHeader := Some (bearer (getToken w)), user := u, isAuthenticated := True\<rparr>)) = None \<or>
     truthy (authHeader (fetchProfile profile_out
      (w\<lparr>authHeader := Some (bearer (getToken w)), user := u, isAuthenticated := True\<rparr>)))" for u
    by (simp add: header_ok_def)
  show ?thesis
    using True f ok_clearSession
    by (cases check_out)
      (auto simp: checkAuth_def Let_def axios_call_def responseInterceptor_def header_ok_def)
qed

lemma ok_signIn:
  assumes "header_ok w"
  shows "header_ok (snd (signIn stringify email password login_out profile_out w))"
proof -
  have c: "header_ok (snd (signIn_catch (authHeader w) e w'))" if "header_ok w'" for e w'
    using that assms by (auto simp: signIn_catch_def header_ok_def)
  have n: "header_ok (w\<lparr>authHeader := None\<rparr>)"
    by (simp add: header_ok_def)
  have p: "header_ok (signIn_persist stringify email d t w')" for d t w'
    by (simp add: signIn_persist_def setToken_def header_ok_def Let_def bearer_nonempty)
  show ?thesis
  proof (cases login_out)
    case (Rejected e)
    then show ?thesis
      using c [OF ok_axios_call [OF n, of "Rejected e :: login_body outcome"]]
      by (simp add: signIn_def Let_def split: prod.splits) (simp add: axios_call_def)
  next
    case (Resolved b)
    then show ?thesis
      using c [OF n, of noTokenError] c [OF n, of "typeError m" for m] ok_fetchProfile [OF p]
      by (cases b) (simp_all add: signIn_def Let_def axios_call_def split: option.splits)
  qed
qed

lemma initAuth_inv: "session_inv (initAuth check_out profile_out w)"
  by (simp add: initAuth_def Let_def inv_checkAuth)

lemma initAuth_ok: "header_ok w \<Longrightarrow> header_ok (initAuth check_out profile_out w)"
proof -
  assume "header_ok w"
  moreover have "header_ok (w\<lparr>authHeader := Some (bearer t)\<rparr>)" for t
    by (simp add: header_ok_def bearer_nonempty)
  ultimately show ?thesis
    by (simp add: initAuth_def Let_def ok_checkAuth)
qed

lemma mounted_ok: "header_ok (mounted st)"
  by (simp add: header_ok_def mounted_def)

lemma remount_ok:
  "header_ok (w\<lparr>user := u, profile := p, loading := l, isAuthenticated := a\<rparr>) = header_ok w"
  by (simp add: header_ok_def)

lemma reachable_session_inv: "reachable w \<Longrightarrow> session_inv w"
  by (induction rule: reachable.induct)
    (simp_all add: initAuth_inv inv_signIn inv_signOut refreshProfile_def inv_fetchProfile
      inv_axios_call)

lemma reachable_header_ok: "reachable w \<Longrightarrow> header_ok w"
  by (induction rule: reachable.induct)
    (simp_all add: initAuth_ok mounted_ok remount_ok ok_signIn signOut_eq ok_clearSession
      refreshProfile_def ok_fetchProfile ok_axios_call)

lemma reachable_session_abc: "reachable session_abc"
proof -
  have "reachable (initAuth (Resolved \<lparr>c_authenticated = False, c_user = None\<rparr>)
          (Rejected network_error) (mounted Map.empty))"
    by (rule reachable.mount)
  then have "reachable (snd (signIn show_user ''a@x.com'' ''pw'' (Resolved (ObjectBody login_abc)) (Rejected network_error)
     (initAuth (Resolved \<lparr>c_authenticated = False, c_user = None\<rparr>)
          (Rejected network_error) (mounted Map.empty))))"
    by (rule reachable.signIn)
  moreover have "snd (signIn show_user ''a@x.com'' ''pw'' (Resolved (ObjectBody login_abc)) (Rejected network_error)
     (initAuth (Resolved \<lparr>c_authenticated = False, c_user = None\<rparr>)
          (Rejected network_error) (mounted Map.empty))) = session_abc"
    by (simp add: initAuth_def mounted_def getToken_def js_or_def checkAuth_def signIn_def Let_def
        axios_call_def extractToken_def login_abc_def signIn_persist_def setToken_def
        fetchProfile_def responseInterceptor_def status_of_def network_error_def
        session_abc_def bearer_def)
  ultimately show ?thesis by simp
qed

lemma reachable_invariant_by_presence:
  assumes "reachable w" and "isAuthenticated w"
  shows "getToken w \<noteq> None \<and> authHeader w \<noteq> None \<and> authHeader w \<noteq> Some []"
proof -
  have "truthy (getToken w)" and h: "truthy (authHeader w)"
    using reachable_session_inv [OF assms(1)] assms(2)
    by (simp_all add: session_inv_def)
  then have "getToken w \<noteq> None" and "authHeader w \<noteq> None"
    by (simp_all add: truthy_not_None)
  moreover have "authHeader w \<noteq> Some []"
    using h by (cases "authHeader w") simp_all
  ultimately show ?thesis
    by simp
qed

end
